theory Spec2Isabelle
  imports Complex_Main "HOL-Library.Word" "HOL-Library.Product_Lexorder"
begin

unbundle bit_operations_syntax

section \<open>Machine types and failures\<close>

type_synonym uint8 = "8 word"
type_synonym ushort = "16 word"
type_synonym uint32 = "32 word"

text \<open>
  \<^verbatim>\<open>Real\<close> and \<^verbatim>\<open>float\<close> are idealised as the HOL reals: no claim below depends on
  rounding or on NaN.  A pointer is a \<^typ>\<open>nat option\<close>, with \<^term>\<open>None\<close> for the
  null pointer.
\<close>

type_synonym Real = real
type_synonym ptr = "nat option"

text \<open>
  What C++ leaves to an \<^verbatim>\<open>assert\<close> (debug build) or to undefined behaviour is a value
  of this type.
\<close>

datatype error = AssertionFailed | NullPointerDereference | UndefinedBehaviour

section \<open>HashedVector (OgreCommon.h)\<close>

record 'a HashedVector =
  mList :: "'a list"
  mListHash :: uint32
  mListHashDirty :: bool

text \<open>
  \<^verbatim>\<open>FastHash\<close> is only declared in OgreCommon.h.  Every function that hashes takes it as
  its first argument, already applied to the bytes of one element:
  \<open>FastHash x h\<close> stands for \<^verbatim>\<open>FastHash((const char*)&x, sizeof(T), h)\<close>.
\<close>

type_synonym 'a FastHash = "'a \<Rightarrow> uint32 \<Rightarrow> uint32"

definition addToHash :: "'a FastHash \<Rightarrow> 'a \<Rightarrow> 'a HashedVector \<Rightarrow> 'a HashedVector" where
  "addToHash FastHash newPtr v = v\<lparr>mListHash := FastHash newPtr (mListHash v)\<rparr>"

definition recalcHash :: "'a FastHash \<Rightarrow> 'a HashedVector \<Rightarrow> 'a HashedVector" where
  "recalcHash FastHash v =
     (foldl (\<lambda>w i. addToHash FastHash i w) (v\<lparr>mListHash := 0\<rparr>) (mList v))
       \<lparr>mListHashDirty := False\<rparr>"

definition dirtyHash :: "'a HashedVector \<Rightarrow> 'a HashedVector" where
  "dirtyHash v = v\<lparr>mListHashDirty := True\<rparr>"

definition isHashDirty :: "'a HashedVector \<Rightarrow> bool" where
  "isHashDirty v = mListHashDirty v"

text \<open>
  The constructors: \<^verbatim>\<open>HashedVector()\<close>, \<^verbatim>\<open>HashedVector(n, t)\<close> (and
  \<^verbatim>\<open>HashedVector(n)\<close>, which is the same with \<^verbatim>\<open>T()\<close> for \<open>t\<close>), the copy constructor,
  and the constructor from an iterator range, which leaves \<open>mListHash\<close> uninitialised:
  \<open>garbage\<close> is the value the member happens to hold.
\<close>

definition HashedVector_empty :: "'a HashedVector" where
  "HashedVector_empty = \<lparr>mList = [], mListHash = 0, mListHashDirty = False\<rparr>"

definition HashedVector_n :: "nat \<Rightarrow> 'a \<Rightarrow> 'a HashedVector" where
  "HashedVector_n n t = \<lparr>mList = replicate n t, mListHash = 0, mListHashDirty = (n > 0)\<rparr>"

definition HashedVector_copy :: "'a HashedVector \<Rightarrow> 'a HashedVector" where
  "HashedVector_copy rhs =
     \<lparr>mList = mList rhs, mListHash = mListHash rhs, mListHashDirty = mListHashDirty rhs\<rparr>"

definition HashedVector_range :: "uint32 \<Rightarrow> 'a list \<Rightarrow> 'a HashedVector" where
  "HashedVector_range garbage ab =
     dirtyHash \<lparr>mList = ab, mListHash = garbage, mListHashDirty = False\<rparr>"

text \<open>\<^verbatim>\<open>operator=\<close> copies the elements, the stored hash and the flag of its argument.\<close>

definition operator_assign :: "'a HashedVector \<Rightarrow> 'a HashedVector \<Rightarrow> 'a HashedVector" where
  "operator_assign rhs v =
     v\<lparr>mList := mList rhs, mListHash := mListHash rhs, mListHashDirty := mListHashDirty rhs\<rparr>"

text \<open>
  The non-const accessors hand out a mutable iterator or reference.  \<^verbatim>\<open>begin\<close>,
  \<^verbatim>\<open>rbegin\<close>, \<^verbatim>\<open>operator[]\<close>, \<^verbatim>\<open>front\<close> and \<^verbatim>\<open>back\<close> dirty the hash first
  (``we have to assume that hash needs recalculating on non-const''); \<^verbatim>\<open>end\<close> and
  \<^verbatim>\<open>rend\<close> do not.  The non-const \<^verbatim>\<open>at\<close> does not compile once instantiated and is left
  out.  A write through what they hand out is \<open>write_at\<close>; outside the vector it is
  undefined behaviour.  The writes modelled are \<^verbatim>\<open>*(begin() + n) = x\<close>,
  \<^verbatim>\<open>*(rbegin() + n) = x\<close>, \<^verbatim>\<open>v[n] = x\<close>, \<^verbatim>\<open>front() = x\<close>, \<^verbatim>\<open>back() = x\<close>,
  \<^verbatim>\<open>*(end() - n) = x\<close> and \<^verbatim>\<open>*(rend() - n) = x\<close>.
\<close>

definition write_at :: "nat \<Rightarrow> 'a \<Rightarrow> 'a HashedVector \<Rightarrow> error + 'a HashedVector" where
  "write_at n x v =
     (if n < length (mList v) then Inr (v\<lparr>mList := (mList v)[n := x]\<rparr>)
      else Inl UndefinedBehaviour)"

definition begin_assign :: "nat \<Rightarrow> 'a \<Rightarrow> 'a HashedVector \<Rightarrow> error + 'a HashedVector" where
  "begin_assign n x v = write_at n x (dirtyHash v)"

definition rbegin_assign :: "nat \<Rightarrow> 'a \<Rightarrow> 'a HashedVector \<Rightarrow> error + 'a HashedVector" where
  "rbegin_assign n x v =
     (if n < length (mList v) then write_at (length (mList v) - 1 - n) x (dirtyHash v)
      else Inl UndefinedBehaviour)"

definition subscript_assign :: "nat \<Rightarrow> 'a \<Rightarrow> 'a HashedVector \<Rightarrow> error + 'a HashedVector" where
  "subscript_assign n x v = write_at n x (dirtyHash v)"

definition front_assign :: "'a \<Rightarrow> 'a HashedVector \<Rightarrow> error + 'a HashedVector" where
  "front_assign x v = write_at 0 x (dirtyHash v)"

definition back_assign :: "'a \<Rightarrow> 'a HashedVector \<Rightarrow> error + 'a HashedVector" where
  "back_assign x v =
     (if mList v = [] then Inl UndefinedBehaviour
      else write_at (length (mList v) - 1) x (dirtyHash v))"

definition end_assign :: "nat \<Rightarrow> 'a \<Rightarrow> 'a HashedVector \<Rightarrow> error + 'a HashedVector" where
  "end_assign n x v =
     (if 1 \<le> n \<and> n \<le> length (mList v) then write_at (length (mList v) - n) x v
      else Inl UndefinedBehaviour)"

definition rend_assign :: "nat \<Rightarrow> 'a \<Rightarrow> 'a HashedVector \<Rightarrow> error + 'a HashedVector" where
  "rend_assign n x v =
     (if 1 \<le> n \<and> n \<le> length (mList v) then write_at (n - 1) x v
      else Inl UndefinedBehaviour)"

definition push_back :: "'a FastHash \<Rightarrow> 'a \<Rightarrow> 'a HashedVector \<Rightarrow> 'a HashedVector" where
  "push_back FastHash t v =
     (let v1 = v\<lparr>mList := mList v @ [t]\<rparr> in
      if \<not> isHashDirty v1 then addToHash FastHash t v1 else v1)"

definition pop_back :: "'a HashedVector \<Rightarrow> error + 'a HashedVector" where
  "pop_back v =
     (if mList v = [] then Inl UndefinedBehaviour
      else Inr (dirtyHash (v\<lparr>mList := butlast (mList v)\<rparr>)))"

text \<open>\<^verbatim>\<open>swap\<close> returns the receiver and the argument, in this order.\<close>

definition swap :: "'a HashedVector \<Rightarrow> 'a HashedVector \<Rightarrow> 'a HashedVector \<times> 'a HashedVector" where
  "swap v rhs = (dirtyHash (v\<lparr>mList := mList rhs\<rparr>), rhs\<lparr>mList := mList v\<rparr>)"

text \<open>
  An iterator is its offset from \<^verbatim>\<open>begin()\<close>, so \<^verbatim>\<open>end()\<close> is the length.  Inserting
  or erasing outside the vector is undefined behaviour.
\<close>

definition insert_at :: "'a list \<Rightarrow> nat \<Rightarrow> 'a list \<Rightarrow> 'a list" where
  "insert_at xs pos ys = take pos xs @ ys @ drop pos xs"

definition insert1 :: "'a FastHash \<Rightarrow> nat \<Rightarrow> 'a \<Rightarrow> 'a HashedVector \<Rightarrow> error + 'a HashedVector" where
  "insert1 FastHash pos t v =
     (if pos > length (mList v) then Inl UndefinedBehaviour
      else
        let recalc = (pos \<noteq> length (mList v));
            v1 = v\<lparr>mList := insert_at (mList v) pos [t]\<rparr>
        in Inr (if recalc then dirtyHash v1 else addToHash FastHash t v1))"

definition insert_range :: "nat \<Rightarrow> 'a list \<Rightarrow> 'a HashedVector \<Rightarrow> error + 'a HashedVector" where
  "insert_range pos fl v =
     (if pos > length (mList v) then Inl UndefinedBehaviour
      else Inr (dirtyHash (v\<lparr>mList := insert_at (mList v) pos fl\<rparr>)))"

definition insert_n :: "nat \<Rightarrow> nat \<Rightarrow> 'a \<Rightarrow> 'a HashedVector \<Rightarrow> error + 'a HashedVector" where
  "insert_n pos n x v =
     (if pos > length (mList v) then Inl UndefinedBehaviour
      else Inr (dirtyHash (v\<lparr>mList := insert_at (mList v) pos (replicate n x)\<rparr>)))"

definition erase1 :: "nat \<Rightarrow> 'a HashedVector \<Rightarrow> error + 'a HashedVector" where
  "erase1 pos v =
     (if pos \<ge> length (mList v) then Inl UndefinedBehaviour
      else Inr (dirtyHash (v\<lparr>mList := take pos (mList v) @ drop (Suc pos) (mList v)\<rparr>)))"

definition erase_range :: "nat \<Rightarrow> nat \<Rightarrow> 'a HashedVector \<Rightarrow> error + 'a HashedVector" where
  "erase_range first lst v =
     (if first > lst \<or> lst > length (mList v) then Inl UndefinedBehaviour
      else Inr (dirtyHash (v\<lparr>mList := take first (mList v) @ drop lst (mList v)\<rparr>)))"

definition clear :: "'a HashedVector \<Rightarrow> 'a HashedVector" where
  "clear v = v\<lparr>mList := [], mListHash := 0, mListHashDirty := False\<rparr>"

definition resize :: "nat \<Rightarrow> 'a \<Rightarrow> 'a HashedVector \<Rightarrow> 'a HashedVector" where
  "resize n t v =
     (let recalc = (n \<noteq> length (mList v));
          v1 = v\<lparr>mList := take n (mList v) @ replicate (n - length (mList v)) t\<rparr>
      in if recalc then dirtyHash v1 else v1)"

definition operator_eq :: "'a HashedVector \<Rightarrow> 'a HashedVector \<Rightarrow> bool" where
  "operator_eq a b = (mListHash a = mListHash b)"

definition operator_less :: "'a HashedVector \<Rightarrow> 'a HashedVector \<Rightarrow> bool" where
  "operator_less a b = (mListHash a < mListHash b)"

text \<open>
  \<^verbatim>\<open>getHash\<close> is a const method over mutable members: it returns the hash and the
  vector as it is afterwards.
\<close>

definition getHash :: "'a FastHash \<Rightarrow> 'a HashedVector \<Rightarrow> uint32 \<times> 'a HashedVector" where
  "getHash FastHash v =
     (let v1 = (if isHashDirty v then recalcHash FastHash v else v)
      in (mListHash v1, v1))"

text \<open>
  The hash of a whole element sequence from seed 0, which is what \<^const>\<open>recalcHash\<close>
  stores, and a list whose stored hash is in step: hash-dirty, or holding that hash.
\<close>

definition fullHash :: "'a FastHash \<Rightarrow> 'a list \<Rightarrow> uint32" where
  "fullHash FastHash xs = foldl (\<lambda>h x. FastHash x h) 0 xs"

definition hashInStep :: "'a FastHash \<Rightarrow> 'a HashedVector \<Rightarrow> bool" where
  "hashInStep FastHash v = (mListHashDirty v \<or> mListHash v = fullHash FastHash (mList v))"

text \<open>
  The operations through which the class keeps track of its hash, as one type:
  the mutating member functions, for \<^verbatim>\<open>swap\<close> on the side of the receiver, and the
  writes through the accessors that dirty the hash.  The two ways of changing the
  elements that the class does not track stay outside: the argument of \<^verbatim>\<open>swap\<close>
  (second component of \<^const>\<open>swap\<close>) and the writes through \<^verbatim>\<open>end()\<close> and
  \<^verbatim>\<open>rend()\<close> (\<^const>\<open>end_assign\<close>, \<^const>\<open>rend_assign\<close>).
\<close>

datatype 'a mutation =
    Push_back 'a
  | Pop_back
  | Swap "'a HashedVector"
  | Insert nat 'a
  | Insert_range nat "'a list"
  | Insert_n nat nat 'a
  | Erase nat
  | Erase_range nat nat
  | Clear
  | Resize nat 'a
  | Assign "'a HashedVector"
  | Begin_assign nat 'a
  | Rbegin_assign nat 'a
  | Subscript_assign nat 'a
  | Front_assign 'a
  | Back_assign 'a

fun mutate :: "'a FastHash \<Rightarrow> 'a mutation \<Rightarrow> 'a HashedVector \<Rightarrow> error + 'a HashedVector" where
  "mutate FastHash (Push_back t) v = Inr (push_back FastHash t v)"
| "mutate FastHash Pop_back v = pop_back v"
| "mutate FastHash (Swap rhs) v = Inr (fst (swap v rhs))"
| "mutate FastHash (Insert pos t) v = insert1 FastHash pos t v"
| "mutate FastHash (Insert_range pos fl) v = insert_range pos fl v"
| "mutate FastHash (Insert_n pos n x) v = insert_n pos n x v"
| "mutate FastHash (Erase pos) v = erase1 pos v"
| "mutate FastHash (Erase_range first lst) v = erase_range first lst v"
| "mutate FastHash Clear v = Inr (clear v)"
| "mutate FastHash (Resize n t) v = Inr (resize n t v)"
| "mutate FastHash (Assign rhs) v = Inr (operator_assign rhs v)"
| "mutate FastHash (Begin_assign n x) v = begin_assign n x v"
| "mutate FastHash (Rbegin_assign n x) v = rbegin_assign n x v"
| "mutate FastHash (Subscript_assign n x) v = subscript_assign n x v"
| "mutate FastHash (Front_assign x) v = front_assign x v"
| "mutate FastHash (Back_assign x) v = back_assign x v"

text \<open>
  The hash-dirty flag after an operation that succeeds: \<^verbatim>\<open>push_back\<close>, the
  single-element \<^verbatim>\<open>insert\<close> at the end and a \<^verbatim>\<open>resize\<close> to the present size leave
  the flag as it is, \<^verbatim>\<open>clear\<close> resets it, \<^verbatim>\<open>operator=\<close> copies it from the argument,
  and every other operation sets it.
\<close>

fun dirtyAfter :: "'a mutation \<Rightarrow> 'a HashedVector \<Rightarrow> bool" where
  "dirtyAfter (Push_back t) v = isHashDirty v"
| "dirtyAfter (Insert pos t) v = (isHashDirty v \<or> pos \<noteq> length (mList v))"
| "dirtyAfter Clear v = False"
| "dirtyAfter (Resize n t) v = (isHashDirty v \<or> n \<noteq> length (mList v))"
| "dirtyAfter (Assign rhs) v = isHashDirty rhs"
| "dirtyAfter m v = True"

section \<open>LightClosest and LightList (OgreCommon.h)\<close>

record LightClosest =
  light :: ptr
  globalIndex :: nat
  distance :: Real

type_synonym LightList = "LightClosest HashedVector"

section \<open>MovableObject (OgreMovableObject.cpp)\<close>

record Vector3 =
  vec_x :: Real
  vec_y :: Real
  vec_z :: Real

text \<open>
  \<^verbatim>\<open>ObjectData\<close> points into the structure-of-arrays storage of the memory manager.
  Each array is raw memory addressed by slot, so it is a total function of the slot
  index; the object's own slot is \<open>mIndex\<close>.  The type \<open>'b\<close> is the bounding box
  (\<^verbatim>\<open>Aabb\<close>), whose declaration is not part of the sources at hand.
\<close>

record 'b ObjectData =
  mIndex :: nat
  mParents :: "nat \<Rightarrow> ptr"
  mLocalAabb :: "nat \<Rightarrow> 'b"
  mWorldAabb :: "nat \<Rightarrow> 'b"

text \<open>The calls an object makes on its listener, recorded in the order made.\<close>

datatype listener_call = objectDestroyed | objectAttached | objectDetached | objectMoved

text \<open>
  The members the constructor and the methods below touch.  \<open>mCachedAabbOutOfDate\<close>
  exists in debug builds only (\<^verbatim>\<open>#ifndef NDEBUG\<close>); the model is of the debug build.
  \<open>mVisibilityFlags\<close>, \<open>mLightMask\<close> and \<open>boundingRadius\<close> stand for what the getters
  \<^verbatim>\<open>getVisibilityFlags\<close>, \<^verbatim>\<open>getLightMask\<close> and the pure virtual
  \<^verbatim>\<open>getBoundingRadius\<close> read; \<open>listenerCalls\<close> is the trace of listener calls.
\<close>

record 'b MovableObject =
  mId :: nat
  mCreator :: ptr
  mManager :: ptr
  mParentNode :: ptr
  mVisible :: bool
  mDebugDisplay :: bool
  mUpperDistance :: Real
  mMinPixelSize :: Real
  mRenderQueueID :: uint8
  mRenderQueuePriority :: ushort
  mCastShadows :: bool
  mListener :: ptr
  mLightList :: LightList
  mObjectData :: "'b ObjectData"
  mCachedAabbOutOfDate :: bool
  mVisibilityFlags :: uint32
  mLightMask :: uint32
  boundingRadius :: Real
  listenerCalls :: "listener_call list"

definition msDefaultQueryFlags :: uint32 where
  "msDefaultQueryFlags = 0xFFFFFFFF"

definition msDefaultVisibilityFlags :: uint32 where
  "msDefaultVisibilityFlags = 0xFFFFFFFF"

text \<open>\<^verbatim>\<open>std::numeric_limits<float>::max()\<close>: the largest finite IEEE single.\<close>

definition numeric_limits_float_max :: Real where
  "numeric_limits_float_max = (2 ^ 24 - 1) * 2 ^ 104"

text \<open>
  The constructor.  \<open>raw\<close> is the storage before construction and gives the members the
  initialiser list does not mention; \<open>mLightList\<close> is default-constructed.
  \<open>RENDER_QUEUE_MAIN\<close> is an enumerator of OgreRenderQueue.h, taken as a parameter, and
  \<open>rootSingleton\<close> is \<^verbatim>\<open>Root::getSingletonPtr()\<close>, reduced to the default minimum pixel size
  of the root when there is one.
\<close>

definition MovableObject_ctor ::
  "uint8 \<Rightarrow> Real option \<Rightarrow> nat \<Rightarrow> 'b MovableObject \<Rightarrow> 'b MovableObject" where
  "MovableObject_ctor RENDER_QUEUE_MAIN rootSingleton ident raw =
     (let this = raw\<lparr>mId := ident,
                     mCreator := None,
                     mManager := None,
                     mParentNode := None,
                     mVisible := True,
                     mDebugDisplay := False,
                     mUpperDistance := numeric_limits_float_max,
                     mMinPixelSize := 0,
                     mRenderQueueID := RENDER_QUEUE_MAIN,
                     mRenderQueuePriority := 100,
                     mCastShadows := True,
                     mListener := None,
                     mLightList := HashedVector_empty,
                     listenerCalls := []\<rparr>
      in case rootSingleton of
           Some getDefaultMinPixelSize \<Rightarrow> this\<lparr>mMinPixelSize := getDefaultMinPixelSize\<rparr>
         | None \<Rightarrow> this)"

definition call_listener :: "listener_call \<Rightarrow> 'b MovableObject \<Rightarrow> 'b MovableObject" where
  "call_listener c this = this\<lparr>listenerCalls := listenerCalls this @ [c]\<rparr>"

definition notifyAttached :: "ptr \<Rightarrow> 'b MovableObject \<Rightarrow> error + 'b MovableObject" where
  "notifyAttached parent this =
     (if \<not> (mParentNode this = None \<or> parent = None) then Inl AssertionFailed
      else
        let different = (parent \<noteq> mParentNode this);
            od = mObjectData this;
            this1 = this\<lparr>mParentNode := parent,
                         mObjectData := od\<lparr>mParents := (mParents od)(mIndex od := parent)\<rparr>\<rparr>
        in Inr (if mListener this1 \<noteq> None \<and> different
                then (if mParentNode this1 \<noteq> None then call_listener objectAttached this1
                      else call_listener objectDetached this1)
                else this1))"

definition notifyMoved :: "'b MovableObject \<Rightarrow> 'b MovableObject" where
  "notifyMoved this =
     (let this1 = this\<lparr>mCachedAabbOutOfDate := True\<rparr>
      in if mListener this1 \<noteq> None then call_listener objectMoved this1 else this1)"

text \<open>
  The scene manager, as far as \<^verbatim>\<open>isVisible\<close> reads it: the value of
  \<^verbatim>\<open>_getCombinedVisibilityMask()\<close>.
\<close>

record SceneManager =
  combinedVisibilityMask :: uint32

text \<open>
  Modelled from the spec: \<^verbatim>\<open>getVisibilityFlags\<close> is declared in a header that is not
  part of the sources at hand; the spec gives the object a visibility-flags bitmask, which
  the getter returns.
\<close>

definition getVisibilityFlags :: "'b MovableObject \<Rightarrow> uint32" where
  "getVisibilityFlags this = mVisibilityFlags this"

text \<open>
  \<open>current\<close> is \<^verbatim>\<open>Root::getSingleton()._getCurrentSceneManager()\<close>: \<^term>\<open>None\<close> when
  no scene manager is active.
\<close>

definition isVisible :: "SceneManager option \<Rightarrow> 'b MovableObject \<Rightarrow> bool" where
  "isVisible current this =
     (if \<not> mVisible this then False
      else if (case current of
                 None \<Rightarrow> False
               | Some sm \<Rightarrow> getVisibilityFlags this AND combinedVisibilityMask sm = 0)
      then False
      else True)"

text \<open>\<open>RENDER_QUEUE_MAX\<close> is an enumerator of OgreRenderQueue.h, taken as a parameter.\<close>

definition setRenderQueueGroup :: "uint8 \<Rightarrow> uint8 \<Rightarrow> 'b MovableObject \<Rightarrow> error + 'b MovableObject" where
  "setRenderQueueGroup RENDER_QUEUE_MAX queueID this =
     (if queueID \<le> RENDER_QUEUE_MAX then Inr (this\<lparr>mRenderQueueID := queueID\<rparr>)
      else Inl AssertionFailed)"

definition getRenderQueueGroup :: "'b MovableObject \<Rightarrow> uint8" where
  "getRenderQueueGroup this = mRenderQueueID this"

definition getWorldAabb :: "'b MovableObject \<Rightarrow> error + 'b" where
  "getWorldAabb this =
     (if mCachedAabbOutOfDate this then Inl AssertionFailed
      else Inr (mWorldAabb (mObjectData this) (mIndex (mObjectData this))))"

text \<open>
  \<^verbatim>\<open>Node::_getFullTransformUpdated\<close> and \<^verbatim>\<open>Aabb::transformAffine\<close> are not part of
  the sources at hand: the first is a function of the node pointer to the matrix (type
  \<open>'m\<close>) it returns, the second a function of box and matrix.
\<close>

definition updateSingleWorldAabb ::
  "(nat \<Rightarrow> 'm) \<Rightarrow> ('b \<Rightarrow> 'm \<Rightarrow> 'b) \<Rightarrow> 'b MovableObject \<Rightarrow> error + ('b \<times> 'b MovableObject)" where
  "updateSingleWorldAabb getFullTransformUpdated transformAffine this =
     (case mParentNode this of
        None \<Rightarrow> Inl NullPointerDereference
      | Some node \<Rightarrow>
          let derivedTransform = getFullTransformUpdated node;
              od = mObjectData this;
              retVal = transformAffine (mLocalAabb od (mIndex od)) derivedTransform;
              this1 = this\<lparr>mObjectData := od\<lparr>mWorldAabb := (mWorldAabb od)(mIndex od := retVal)\<rparr>\<rparr>
          in Inr (retVal, this1\<lparr>mCachedAabbOutOfDate := False\<rparr>))"

definition getWorldAabbUpdated ::
  "(nat \<Rightarrow> 'm) \<Rightarrow> ('b \<Rightarrow> 'm \<Rightarrow> 'b) \<Rightarrow> 'b MovableObject \<Rightarrow> error + ('b \<times> 'b MovableObject)" where
  "getWorldAabbUpdated getFullTransformUpdated transformAffine this =
     updateSingleWorldAabb getFullTransformUpdated transformAffine this"

definition std_max :: "Real \<Rightarrow> Real \<Rightarrow> Real" where
  "std_max a b = (if a < b then b else a)"

text \<open>
  Modelled from the spec: \<^verbatim>\<open>getBoundingRadius\<close> is pure virtual and \<^verbatim>\<open>getLightMask\<close>
  is declared in a header that is not part of the sources at hand; the spec gives the
  object a local bounding radius and a light mask, which the two getters return.
\<close>

definition getBoundingRadius :: "'b MovableObject \<Rightarrow> Real" where
  "getBoundingRadius this = boundingRadius this"

definition getLightMask :: "'b MovableObject \<Rightarrow> uint32" where
  "getLightMask this = mLightMask this"

text \<open>
  \<^verbatim>\<open>Node::_getDerivedScale\<close> and \<^verbatim>\<open>SceneNode::findLights\<close> are not part of the
  sources at hand; \<^verbatim>\<open>queryLights\<close> takes both as functions of the node pointer.
  \<open>findLights sn destList radius lightMask\<close> is the destination list after the call.
  The method returns a reference to \<open>mLightList\<close>: the list and the object afterwards.
\<close>

type_synonym findLights = "nat \<Rightarrow> LightList \<Rightarrow> Real \<Rightarrow> uint32 \<Rightarrow> LightList"

definition queryLights ::
  "(nat \<Rightarrow> Vector3) \<Rightarrow> findLights \<Rightarrow> 'b MovableObject \<Rightarrow> LightList \<times> 'b MovableObject" where
  "queryLights getDerivedScale findLights this =
     (let this1 =
        (case mParentNode this of
           Some sn \<Rightarrow>
             let scl = getDerivedScale sn;
                 factor = std_max (std_max (vec_x scl) (vec_y scl)) (vec_z scl)
             in this\<lparr>mLightList :=
                       findLights sn (mLightList this) (getBoundingRadius this * factor)
                         (getLightMask this)\<rparr>
         | None \<Rightarrow> this\<lparr>mLightList := clear (mLightList this)\<rparr>)
      in (mLightList this1, this1))"

section \<open>Attaching and detaching\<close>

text \<open>
  A scene is one object together with the set of attached objects (their ids) of every
  node, which is what the spec gives a node.
\<close>

record 'b Scene =
  obj :: "'b MovableObject"
  attachments :: "nat \<Rightarrow> nat set"

text \<open>
  Modelled from the spec: \<^verbatim>\<open>isAttached\<close> is declared in a header that is not part of
  the sources at hand; an object is attached when its parent node reference is set.
\<close>

definition isAttached :: "'b MovableObject \<Rightarrow> bool" where
  "isAttached this = (mParentNode this \<noteq> None)"

text \<open>
  Modelled from the spec: \<^verbatim>\<open>SceneNode::detachObject\<close> is missing from the sources at
  hand.  Detaching clears the parent reference of the object (through
  \<^verbatim>\<open>_notifyAttached\<close> with a null parent, from the source) and takes the object out of
  the set of the node, the two being kept consistent.
\<close>

definition SceneNode_detachObject :: "nat \<Rightarrow> 'b Scene \<Rightarrow> error + 'b Scene" where
  "SceneNode_detachObject sn s =
     (case notifyAttached None (obj s) of
        Inl e \<Rightarrow> Inl e
      | Inr this \<Rightarrow>
          Inr \<lparr>obj = this,
               attachments = (attachments s)(sn := attachments s sn - {mId (obj s)})\<rparr>)"

text \<open>\<^verbatim>\<open>MovableObject::detachFromParent\<close>, from the source.\<close>

definition detachFromParent :: "'b Scene \<Rightarrow> error + 'b Scene" where
  "detachFromParent s =
     (if isAttached (obj s)
      then (case mParentNode (obj s) of
              Some sn \<Rightarrow> SceneNode_detachObject sn s
            | None \<Rightarrow> Inl NullPointerDereference)
      else Inr s)"

text \<open>
  Modelled from the spec: the attach operation (\<^verbatim>\<open>attachTo\<close> in the spec) is missing
  from the sources at hand.  Attaching an already-attached object first detaches it from
  its previous node; then the parent reference is set (through \<^verbatim>\<open>_notifyAttached\<close>,
  from the source) and the object joins the set of the node.
\<close>

definition attachTo :: "nat \<Rightarrow> 'b Scene \<Rightarrow> error + 'b Scene" where
  "attachTo node s =
     (case detachFromParent s of
        Inl e \<Rightarrow> Inl e
      | Inr s1 \<Rightarrow>
          (case notifyAttached (Some node) (obj s1) of
             Inl e \<Rightarrow> Inl e
           | Inr this \<Rightarrow>
               Inr \<lparr>obj = this,
                    attachments =
                      (attachments s1)(node := insert (mId (obj s1)) (attachments s1 node))\<rparr>))"

text \<open>The invariant of the spec: parent reference and attached-object sets agree.\<close>

definition consistent :: "'b Scene \<Rightarrow> bool" where
  "consistent s =
     ((\<forall>n. (mId (obj s) \<in> attachments s n) = (mParentNode (obj s) = Some n)) \<and>
      mParents (mObjectData (obj s)) (mIndex (mObjectData (obj s))) = mParentNode (obj s))"

section \<open>The light query service\<close>

text \<open>
  A candidate light of the query service: the light, its index in the global light list,
  its mask, its distance to the query point, and whether it is directional.
\<close>

record Candidate =
  cLight :: ptr
  cGlobalIndex :: nat
  cMask :: uint32
  cDistance :: Real
  cDirectional :: bool

text \<open>
  Modelled from the spec: the distance computation of the service is missing from the
  sources at hand.  The spec makes directional lights an explicit special case: they are
  treated as always nearest, with distance 0.
\<close>

definition effectiveDistance :: "Candidate \<Rightarrow> Real" where
  "effectiveDistance c = (if cDirectional c then 0 else cDistance c)"

definition toClosest :: "Candidate \<Rightarrow> LightClosest" where
  "toClosest c =
     \<lparr>light = cLight c, globalIndex = cGlobalIndex c, distance = effectiveDistance c\<rparr>"

text \<open>
  Modelled from the spec: \<^verbatim>\<open>LightClosest::operator<\<close> is declared in OgreCommon.h and
  its body is missing from the sources at hand.  The spec orders lights ascending by
  distance, ties broken by the lower global index.
\<close>

definition LightClosest_less :: "LightClosest \<Rightarrow> LightClosest \<Rightarrow> bool" where
  "LightClosest_less a b =
     (distance a < distance b \<or> (distance a = distance b \<and> globalIndex a < globalIndex b))"

text \<open>
  Modelled from the spec: the deduplication of the service is missing from the sources at
  hand.  The spec has the service produce the lights deduplicated; a light is identified
  by its global index, and of several entries for one light the first is kept, which in
  the sorted list is the nearest.
\<close>

fun dedupLights :: "LightClosest list \<Rightarrow> LightClosest list" where
  "dedupLights [] = []"
| "dedupLights (l # ls) =
     l # dedupLights (filter (\<lambda>m. globalIndex m \<noteq> globalIndex l) ls)"

text \<open>
  Modelled from the spec: \<^verbatim>\<open>SceneNode::findLights\<close> is missing from the sources at
  hand.  The spec has the service keep the candidates within the radius whose mask
  intersects the query mask (\<open>affects\<close>), sort them ascending by distance with ties broken
  by the lower global index, deduplicate them, and keep the nearest \<open>K\<close>
  (\<open>nearestLights\<close>); \<open>findLights_spec\<close> leaves them in the destination list.
\<close>

definition affects :: "Real \<Rightarrow> uint32 \<Rightarrow> Candidate \<Rightarrow> bool" where
  "affects radius lightMask c =
     (cMask c AND lightMask \<noteq> 0 \<and> effectiveDistance c \<le> radius)"

definition nearestLights :: "nat \<Rightarrow> Candidate list \<Rightarrow> Real \<Rightarrow> uint32 \<Rightarrow> LightClosest list" where
  "nearestLights K candidates radius lightMask =
     take K (dedupLights (sort_key (\<lambda>l. (distance l, globalIndex l))
              (map toClosest (filter (affects radius lightMask) candidates))))"

definition findLights_spec ::
  "LightClosest FastHash \<Rightarrow> nat \<Rightarrow> Candidate list \<Rightarrow> findLights" where
  "findLights_spec FastHash K candidates sn destList radius lightMask =
     foldl (\<lambda>d l. push_back FastHash l d) (clear destList)
       (nearestLights K candidates radius lightMask)"

text \<open>
  The order of the returned list, spelled out: nearer first, and at equal distance the
  lower global index first.
\<close>

definition lightOrder :: "LightClosest \<Rightarrow> LightClosest \<Rightarrow> bool" where
  "lightOrder a b =
     (distance a < distance b \<or> (distance a = distance b \<and> globalIndex a \<le> globalIndex b))"

text \<open>A scene with the trace of listener calls of its object replaced.\<close>

definition forgetCalls :: "listener_call list \<Rightarrow> 'b Scene \<Rightarrow> 'b Scene" where
  "forgetCalls cs s = s\<lparr>obj := (obj s)\<lparr>listenerCalls := cs\<rparr>\<rparr>"

section \<open>Concrete instances\<close>

text \<open>
  A one-dimensional world for running the definitions: a box is an interval, a transform
  is a translation, and the hash of a light folds in its global index.
\<close>

definition sampleData :: "(int \<times> int) ObjectData" where
  "sampleData =
     \<lparr>mIndex = 0, mParents = (\<lambda>i. None), mLocalAabb = (\<lambda>i. (-1, 1)),
      mWorldAabb = (\<lambda>i. (0, 0))\<rparr>"

definition sampleObject :: "(int \<times> int) MovableObject" where
  "sampleObject =
     \<lparr>mId = 7, mCreator = None, mManager = None, mParentNode = None, mVisible = True,
      mDebugDisplay = False, mUpperDistance = numeric_limits_float_max, mMinPixelSize = 0,
      mRenderQueueID = 50, mRenderQueuePriority = 100, mCastShadows = True,
      mListener = Some 9, mLightList = HashedVector_n 1 \<lparr>light = None, globalIndex = 0, distance = 0\<rparr>,
      mObjectData = sampleData, mCachedAabbOutOfDate = False, mVisibilityFlags = 6,
      mLightMask = 1, boundingRadius = 2, listenerCalls = []\<rparr>"

definition sampleAttached :: "(int \<times> int) MovableObject" where
  "sampleAttached =
     sampleObject\<lparr>mParentNode := Some 2,
                  mObjectData := sampleData\<lparr>mParents := (\<lambda>i. None)(0 := Some 2)\<rparr>\<rparr>"

definition sampleScene :: "(int \<times> int) Scene" where
  "sampleScene = \<lparr>obj = sampleObject, attachments = (\<lambda>n. {})\<rparr>"

definition sampleSceneAttached :: "(int \<times> int) Scene" where
  "sampleSceneAttached = \<lparr>obj = sampleAttached, attachments = (\<lambda>n. {})(2 := {7})\<rparr>"

definition translate :: "int \<times> int \<Rightarrow> int \<Rightarrow> int \<times> int" where
  "translate box t = (fst box + t, snd box + t)"

definition sampleScale :: "nat \<Rightarrow> Vector3" where
  "sampleScale node = \<lparr>vec_x = 1, vec_y = 3, vec_z = 2\<rparr>"

definition sampleHash :: "LightClosest FastHash" where
  "sampleHash l h = 31 * h + of_nat (globalIndex l)"

definition lightA :: Candidate where
  "lightA =
     \<lparr>cLight = Some 100, cGlobalIndex = 2, cMask = 1, cDistance = 5, cDirectional = False\<rparr>"

definition lightB :: Candidate where
  "lightB =
     \<lparr>cLight = Some 101, cGlobalIndex = 1, cMask = 1, cDistance = 5, cDirectional = False\<rparr>"

definition lightC :: Candidate where
  "lightC =
     \<lparr>cLight = Some 102, cGlobalIndex = 5, cMask = 1, cDistance = 3, cDirectional = False\<rparr>"

definition lightD :: Candidate where
  "lightD =
     \<lparr>cLight = Some 103, cGlobalIndex = 7, cMask = 1, cDistance = 40, cDirectional = True\<rparr>"

section \<open>Facts about HashedVector\<close>

lemma foldl_addToHash:
  "foldl (\<lambda>w i. addToHash FastHash i w) v xs =
     v\<lparr>mListHash := foldl (\<lambda>h x. FastHash x h) (mListHash v) xs\<rparr>"
  by (induction xs arbitrary: v) (simp_all add: addToHash_def)

lemma recalcHash_eq:
  "recalcHash FastHash v =
     v\<lparr>mListHash := fullHash FastHash (mList v), mListHashDirty := False\<rparr>"
  by (simp add: recalcHash_def foldl_addToHash fullHash_def)

lemma fullHash_snoc:
  "fullHash FastHash (xs @ [t]) = FastHash t (fullHash FastHash xs)"
  by (simp add: fullHash_def)

lemma constructors_in_step:
  "hashInStep FastHash HashedVector_empty"
  "hashInStep FastHash (HashedVector_n n t)"
  "hashInStep FastHash (HashedVector_range garbage ab)"
  "hashInStep FastHash rhs \<Longrightarrow> hashInStep FastHash (HashedVector_copy rhs)"
  by (cases n; simp add: hashInStep_def HashedVector_empty_def HashedVector_n_def
        HashedVector_range_def HashedVector_copy_def dirtyHash_def fullHash_def)+

lemma push_back_in_step:
  "hashInStep FastHash v \<Longrightarrow> hashInStep FastHash (push_back FastHash t v)"
  by (auto simp: hashInStep_def push_back_def isHashDirty_def addToHash_def fullHash_snoc Let_def)

lemma insert1_in_step:
  "hashInStep FastHash v \<Longrightarrow> insert1 FastHash pos t v = Inr v' \<Longrightarrow> hashInStep FastHash v'"
  by (auto simp: hashInStep_def insert1_def insert_at_def dirtyHash_def addToHash_def
        fullHash_snoc Let_def split: if_splits)

lemma resize_in_step:
  "hashInStep FastHash v \<Longrightarrow> hashInStep FastHash (resize n t v)"
  by (auto simp: hashInStep_def resize_def dirtyHash_def Let_def)

lemma write_at_dirty:
  "write_at n x (dirtyHash v) = Inr v' \<Longrightarrow> mListHashDirty v' \<and> mListHash v' = mListHash v"
  by (auto simp: write_at_def dirtyHash_def split: if_splits)

lemma write_at_flag:
  "write_at n x v = Inr v' \<Longrightarrow>
     mListHashDirty v' = mListHashDirty v \<and> mListHash v' = mListHash v
     \<and> mList v' = (mList v)[n := x]"
  by (auto simp: write_at_def split: if_splits)

lemma mutate_in_step:
  assumes "hashInStep FastHash v" and "mutate FastHash m v = Inr v'"
    and "\<And>rhs. m = Assign rhs \<Longrightarrow> hashInStep FastHash rhs"
  shows "hashInStep FastHash v'"
proof (cases m)
  case (Push_back t)
  with assms show ?thesis using push_back_in_step by fastforce
next
  case (Insert pos t)
  with assms show ?thesis using insert1_in_step by fastforce
next
  case (Resize n t)
  with assms show ?thesis using resize_in_step by fastforce
next
  case (Assign rhs)
  with assms(2) assms(3) [of rhs] show ?thesis
    by (auto simp: hashInStep_def operator_assign_def)
next
  case (Begin_assign n x)
  with assms(2) show ?thesis
    using write_at_dirty [of n x v v'] by (simp add: hashInStep_def begin_assign_def)
next
  case (Rbegin_assign n x)
  with assms(2) show ?thesis
    using write_at_dirty [of "length (mList v) - 1 - n" x v v']
    by (simp add: hashInStep_def rbegin_assign_def split: if_splits)
next
  case (Subscript_assign n x)
  with assms(2) show ?thesis
    using write_at_dirty [of n x v v'] by (simp add: hashInStep_def subscript_assign_def)
next
  case (Front_assign x)
  with assms(2) show ?thesis
    using write_at_dirty [of 0 x v v'] by (simp add: hashInStep_def front_assign_def)
next
  case (Back_assign x)
  with assms(2) show ?thesis
    using write_at_dirty [of "length (mList v) - 1" x v v']
    by (simp add: hashInStep_def back_assign_def split: if_splits)
qed (use assms in \<open>auto simp: hashInStep_def pop_back_def swap_def insert_range_def insert_n_def
       erase1_def erase_range_def clear_def dirtyHash_def fullHash_def
       Let_def split: if_splits\<close>)

lemma mutate_dirty:
  assumes "mutate FastHash m v = Inr v'"
  shows "isHashDirty v' = dirtyAfter m v"
proof (cases m)
  case (Begin_assign n x)
  with assms show ?thesis
    using write_at_dirty [of n x v v'] by (simp add: isHashDirty_def begin_assign_def)
next
  case (Rbegin_assign n x)
  with assms show ?thesis
    using write_at_dirty [of "length (mList v) - 1 - n" x v v']
    by (simp add: isHashDirty_def rbegin_assign_def split: if_splits)
next
  case (Subscript_assign n x)
  with assms show ?thesis
    using write_at_dirty [of n x v v'] by (simp add: isHashDirty_def subscript_assign_def)
next
  case (Front_assign x)
  with assms show ?thesis
    using write_at_dirty [of 0 x v v'] by (simp add: isHashDirty_def front_assign_def)
next
  case (Back_assign x)
  with assms show ?thesis
    using write_at_dirty [of "length (mList v) - 1" x v v']
    by (simp add: isHashDirty_def back_assign_def split: if_splits)
qed (use assms in \<open>auto simp: isHashDirty_def push_back_def pop_back_def swap_def insert1_def
       insert_range_def insert_n_def erase1_def erase_range_def clear_def resize_def
       operator_assign_def dirtyHash_def addToHash_def Let_def split: if_splits\<close>)

lemma push_back_effect:
  "mList (push_back FastHash t v) = mList v @ [t]
   \<and> mListHash (push_back FastHash t v)
       = (if isHashDirty v then mListHash v else FastHash t (mListHash v))"
  by (simp add: push_back_def isHashDirty_def addToHash_def Let_def)

lemma insert1_at_end_effect:
  "insert1 FastHash (length (mList v)) t v = Inr v' \<Longrightarrow>
     mList v' = mList v @ [t] \<and> mListHash v' = FastHash t (mListHash v)"
  by (auto simp: insert1_def insert_at_def addToHash_def Let_def)

text \<open>
  The two untracked ways of changing the elements: the hash and the flag stay as they
  were.
\<close>

lemma swap_argument_untracked:
  "snd (swap v rhs) = rhs\<lparr>mList := mList v\<rparr>"
  by (simp add: swap_def)

lemma end_rend_untracked:
  "end_assign n x v = Inr v' \<or> rend_assign n x v = Inr v' \<Longrightarrow>
     mListHashDirty v' = mListHashDirty v \<and> mListHash v' = mListHash v"
  by (auto simp: end_assign_def rend_assign_def dest: write_at_flag split: if_splits)

lemma getHash_dirty:
  "isHashDirty v \<Longrightarrow>
     getHash FastHash v =
       (fullHash FastHash (mList v),
        v\<lparr>mListHash := fullHash FastHash (mList v), mListHashDirty := False\<rparr>)"
  by (simp add: getHash_def recalcHash_eq)

lemma getHash_in_step:
  "hashInStep FastHash v \<Longrightarrow> fst (getHash FastHash v) = fullHash FastHash (mList v)"
  by (auto simp: getHash_def recalcHash_eq hashInStep_def isHashDirty_def)

section \<open>Facts about the light query\<close>

lemma lightOrder_key:
  "lightOrder a b = ((distance a, globalIndex a) \<le> (distance b, globalIndex b))"
  by (auto simp: lightOrder_def)

lemma lightOrder_less: "lightOrder a b = (\<not> LightClosest_less b a)"
  by (auto simp: lightOrder_def LightClosest_less_def)

lemma mList_fill:
  "mList (foldl (\<lambda>d l. push_back FastHash l d) d xs) = mList d @ xs"
  by (induction xs arbitrary: d) (simp_all add: push_back_def addToHash_def Let_def)

lemma mList_findLights_spec:
  "mList (findLights_spec FastHash K candidates sn destList radius lightMask)
     = nearestLights K candidates radius lightMask"
  by (simp add: findLights_spec_def mList_fill clear_def)

lemma lightOrder_refl: "lightOrder a a"
  by (simp add: lightOrder_def)

lemma lightOrder_trans: "lightOrder a b \<Longrightarrow> lightOrder b c \<Longrightarrow> lightOrder a c"
  by (auto simp: lightOrder_def)

lemma set_dedupLights_subset: "set (dedupLights xs) \<subseteq> set xs"
  by (induction xs rule: dedupLights.induct) auto

lemma dedupLights_indices:
  "globalIndex ` set (dedupLights xs) = globalIndex ` set xs"
  by (induction xs rule: dedupLights.induct) auto

lemma dedupLights_distinct: "distinct (map globalIndex (dedupLights xs))"
proof (induction xs rule: dedupLights.induct)
  case 1
  show ?case by simp
next
  case (2 l ls)
  have "globalIndex l
      \<notin> globalIndex ` set (dedupLights (filter (\<lambda>m. globalIndex m \<noteq> globalIndex l) ls))"
    unfolding dedupLights_indices by auto
  with 2 show ?case by simp
qed

lemma dedupLights_sorted:
  "sorted_wrt P xs \<Longrightarrow> sorted_wrt P (dedupLights xs)"
proof (induction xs rule: dedupLights.induct)
  case 1
  show ?case by simp
next
  case (2 l ls)
  from 2(2) have "sorted_wrt P (filter (\<lambda>m. globalIndex m \<noteq> globalIndex l) ls)"
    by (simp add: sorted_wrt_filter)
  with 2(1) have a: "sorted_wrt P (dedupLights (filter (\<lambda>m. globalIndex m \<noteq> globalIndex l) ls))"
    by simp
  have "set (dedupLights (filter (\<lambda>m. globalIndex m \<noteq> globalIndex l) ls)) \<subseteq> set ls"
    using set_dedupLights_subset [of "filter (\<lambda>m. globalIndex m \<noteq> globalIndex l) ls"] by auto
  with 2(2) a show ?case by auto
qed

lemma dedupLights_first:
  assumes "sorted_wrt P xs" "\<And>a. P a a" "x \<in> set xs"
  shows "\<exists>d \<in> set (dedupLights xs). globalIndex d = globalIndex x \<and> P d x"
  using assms(1,3)
proof (induction xs rule: dedupLights.induct)
  case 1
  then show ?case by simp
next
  case (2 l ls)
  show ?case
  proof (cases "globalIndex x = globalIndex l")
    case True
    have "P l x" using 2(2,3) assms(2) by auto
    with True show ?thesis by auto
  next
    case False
    then have "x \<in> set (filter (\<lambda>m. globalIndex m \<noteq> globalIndex l) ls)"
      using 2(3) by auto
    moreover have "sorted_wrt P (filter (\<lambda>m. globalIndex m \<noteq> globalIndex l) ls)"
      using 2(2) by (simp add: sorted_wrt_filter)
    ultimately show ?thesis using 2(1) by auto
  qed
qed

lemma length_dedupLights: "length (dedupLights xs) = card (globalIndex ` set xs)"
proof -
  have "length (dedupLights xs) = length (map globalIndex (dedupLights xs))" by simp
  also have "\<dots> = card (set (map globalIndex (dedupLights xs)))"
    using dedupLights_distinct [of xs] by (simp only: distinct_card)
  also have "\<dots> = card (globalIndex ` set xs)"
    by (simp add: dedupLights_indices)
  finally show ?thesis .
qed

lemma sorted_candidates:
  "sorted_wrt lightOrder (sort_key (\<lambda>l. (distance l, globalIndex l)) xs)"
proof -
  have "sorted (map (\<lambda>l. (distance l, globalIndex l))
                 (sort_key (\<lambda>l. (distance l, globalIndex l)) xs))"
    by (rule sorted_sort_key)
  then show ?thesis
    by (simp add: sorted_map lightOrder_key [abs_def])
qed

lemma nearestLights_sorted:
  "sorted_wrt lightOrder (nearestLights K candidates radius lightMask)"
  unfolding nearestLights_def
  by (intro sorted_wrt_take dedupLights_sorted sorted_candidates)

lemma nearestLights_distinct:
  "distinct (map globalIndex (nearestLights K candidates radius lightMask))"
  unfolding nearestLights_def take_map [symmetric]
  by (intro distinct_take dedupLights_distinct)

lemma nearestLights_subset:
  "r \<in> set (nearestLights K candidates radius lightMask) \<Longrightarrow>
     \<exists>c \<in> set candidates. r = toClosest c \<and> affects radius lightMask c"
proof -
  assume "r \<in> set (nearestLights K candidates radius lightMask)"
  then have "r \<in> set (dedupLights (sort_key (\<lambda>l. (distance l, globalIndex l))
              (map toClosest (filter (affects radius lightMask) candidates))))"
    unfolding nearestLights_def by (rule in_set_takeD)
  then have "r \<in> set (sort_key (\<lambda>l. (distance l, globalIndex l))
              (map toClosest (filter (affects radius lightMask) candidates)))"
    using set_dedupLights_subset by blast
  then show ?thesis by auto
qed

lemma nearestLights_length:
  "length (nearestLights K candidates radius lightMask)
     = min K (card (cGlobalIndex ` set (filter (affects radius lightMask) candidates)))"
proof -
  have "globalIndex ` toClosest ` set (filter (affects radius lightMask) candidates)
          = cGlobalIndex ` set (filter (affects radius lightMask) candidates)"
    by (force simp: toClosest_def)
  then show ?thesis
    by (simp add: nearestLights_def length_dedupLights min.commute)
qed

lemma nearestLights_nearest:
  assumes "c \<in> set candidates" "affects radius lightMask c"
    and "cGlobalIndex c \<notin> globalIndex ` set (nearestLights K candidates radius lightMask)"
  shows "length (nearestLights K candidates radius lightMask) = K
         \<and> (\<forall>r \<in> set (nearestLights K candidates radius lightMask).
               lightOrder r (toClosest c))"
proof -
  let ?xs = "sort_key (\<lambda>l. (distance l, globalIndex l))
               (map toClosest (filter (affects radius lightMask) candidates))"
  let ?ds = "dedupLights ?xs"
  have rs: "nearestLights K candidates radius lightMask = take K ?ds"
    by (simp add: nearestLights_def)
  have "toClosest c \<in> set ?xs" using assms(1,2) by simp
  then obtain d where d: "d \<in> set ?ds" "globalIndex d = globalIndex (toClosest c)"
      "lightOrder d (toClosest c)"
    using dedupLights_first [where P = lightOrder, OF sorted_candidates lightOrder_refl]
    by blast
  have "globalIndex d = cGlobalIndex c" using d(2) by (simp add: toClosest_def)
  with assms(3) have "d \<notin> set (take K ?ds)" unfolding rs by force
  moreover from d(1) have "d \<in> set (take K ?ds) \<union> set (drop K ?ds)"
    by (metis append_take_drop_id set_append)
  ultimately have dd: "d \<in> set (drop K ?ds)" by simp
  then have "K < length ?ds" by (cases "K < length ?ds") auto
  then have len: "length (take K ?ds) = K" by simp
  have "sorted_wrt lightOrder ?ds"
    by (intro dedupLights_sorted sorted_candidates)
  then have "sorted_wrt lightOrder (take K ?ds @ drop K ?ds)" by simp
  then have "\<forall>a \<in> set (take K ?ds). \<forall>b \<in> set (drop K ?ds). lightOrder a b"
    unfolding sorted_wrt_append by blast
  with dd have "\<forall>r \<in> set (take K ?ds). lightOrder r d" by blast
  with d(3) have "\<forall>r \<in> set (take K ?ds). lightOrder r (toClosest c)"
    using lightOrder_trans by blast
  with len show ?thesis unfolding rs by simp
qed

lemma and_nonzero_iff_common_bit:
  "((a :: (_::len) word) AND b \<noteq> 0) = (\<exists>n. bit a n \<and> bit b n)"
  by (auto simp: bit_eq_iff bit_and_iff dest: bit_imp_le_length)

lemma std_max_is_Max: "std_max (std_max a b) c = Max {a, b, c}"
  by (simp add: std_max_def max_def)

section \<open>Facts about attaching and detaching\<close>

lemma detach_unattached:
  "mParentNode (obj s) = None \<Longrightarrow> detachFromParent s = Inr s"
  by (simp add: detachFromParent_def isAttached_def)

lemma detach_attached:
  assumes "consistent s" "mParentNode (obj s) = Some prev"
  shows "\<exists>s0. detachFromParent s = Inr s0 \<and> mParentNode (obj s0) = None \<and> consistent s0
            \<and> attachments s0 = (attachments s)(prev := attachments s prev - {mId (obj s)})
            \<and> mId (obj s0) = mId (obj s)"
  using assms
  by (auto simp: detachFromParent_def isAttached_def SceneNode_detachObject_def notifyAttached_def
        consistent_def call_listener_def Let_def)

lemma attach_unattached:
  assumes "consistent s" "mParentNode (obj s) = None"
  shows "\<exists>s1. attachTo node s = Inr s1 \<and> mParentNode (obj s1) = Some node \<and> consistent s1
            \<and> attachments s1 = (attachments s)(node := insert (mId (obj s)) (attachments s node))
            \<and> mId (obj s1) = mId (obj s)"
  using assms
  by (auto simp: attachTo_def detachFromParent_def isAttached_def notifyAttached_def
        consistent_def call_listener_def Let_def)

lemma attach_then_detach:
  assumes "consistent s" "mParentNode (obj s) = None"
  shows "\<exists>s1 s2. attachTo node s = Inr s1 \<and> detachFromParent s1 = Inr s2
            \<and> forgetCalls (listenerCalls (obj s)) s2 = s"
proof -
  have p: "mParents (mObjectData (obj s)) (mIndex (mObjectData (obj s))) = None"
    and a: "mId (obj s) \<notin> attachments s node"
    using assms by (simp_all add: consistent_def)
  have att: "(attachments s)(node := insert (mId (obj s)) (attachments s node) - {mId (obj s)})
               = attachments s"
    using a by (simp add: fun_eq_iff)
  have par: "(mParents (mObjectData (obj s)))(mIndex (mObjectData (obj s)) := None)
               = mParents (mObjectData (obj s))"
    using p by (simp add: fun_eq_iff)
  show ?thesis
    using assms(2) att par
    by (cases "mListener (obj s)")
       (simp_all add: attachTo_def detachFromParent_def isAttached_def notifyAttached_def
          SceneNode_detachObject_def call_listener_def Let_def forgetCalls_def)
qed

lemma detach_then_attach:
  assumes "consistent s" "mParentNode (obj s) = Some prev"
  shows "\<exists>s0 s2. detachFromParent s = Inr s0 \<and> attachTo prev s0 = Inr s2
            \<and> forgetCalls (listenerCalls (obj s)) s2 = s"
proof -
  have p: "mParents (mObjectData (obj s)) (mIndex (mObjectData (obj s))) = Some prev"
    and a: "mId (obj s) \<in> attachments s prev"
    using assms by (simp_all add: consistent_def)
  have att: "(attachments s)(prev := insert (mId (obj s)) (attachments s prev - {mId (obj s)}))
               = attachments s"
    using a by (auto simp: fun_eq_iff)
  have par: "(mParents (mObjectData (obj s)))(mIndex (mObjectData (obj s)) := Some prev)
               = mParents (mObjectData (obj s))"
    using p by (simp add: fun_eq_iff)
  have rst: "obj s\<lparr>mParentNode := Some prev\<rparr> = obj s"
    using assms(2) by simp
  show ?thesis
    using assms(2) att par rst
    by (cases "mListener (obj s)")
       (simp_all add: attachTo_def detachFromParent_def isAttached_def notifyAttached_def
          SceneNode_detachObject_def call_listener_def Let_def forgetCalls_def)
qed

lemma reattach:
  assumes "consistent s" "mParentNode (obj s) = Some prev"
  shows "\<exists>s1. attachTo node s = Inr s1 \<and> mParentNode (obj s1) = Some node \<and> consistent s1
            \<and> (node \<noteq> prev \<longrightarrow> mId (obj s) \<notin> attachments s1 prev)"
proof -
  obtain s0 where s0: "detachFromParent s = Inr s0" "mParentNode (obj s0) = None" "consistent s0"
     "attachments s0 = (attachments s)(prev := attachments s prev - {mId (obj s)})"
     "mId (obj s0) = mId (obj s)"
    using detach_attached [OF assms] by blast
  obtain s1 where s1: "attachTo node s0 = Inr s1" "mParentNode (obj s1) = Some node" "consistent s1"
     "attachments s1 = (attachments s0)(node := insert (mId (obj s0)) (attachments s0 node))"
    using attach_unattached [OF s0(3) s0(2)] by blast
  have "attachTo node s = attachTo node s0"
    using s0(1,2) by (simp add: attachTo_def detach_unattached)
  with s0 s1 show ?thesis by auto
qed

section \<open>The claims\<close>

text \<open>
  C1.  Against the light query service as the spec describes it, with any cap \<open>K\<close> and any
  candidate lights.  Every light \<^verbatim>\<open>queryLights\<close> returns is a candidate whose mask
  intersects the light mask of the object; the list is ordered ascending by distance, and
  at equal distance by ascending global index (ordered by \<^verbatim>\<open>operator<\<close>, no light of the
  list is less than one before it); no light is returned twice; a directional light is
  returned with distance 0; the list has at most \<open>K\<close> entries.  For an unattached object
  the list is empty.  For an attached object the list is the first \<open>K\<close> of the
  deduplicated sorted affecting candidates, so its length is the smaller of \<open>K\<close> and the
  number of affecting lights, and an affecting light is left out only when the list is
  full and every returned light comes before it or ties with it in the order.  The result
  is a function of its inputs, hence the same on every run.
\<close>

theorem queryLights_nearest_sorted:
  "(let rs = mList (fst (queryLights getDerivedScale (findLights_spec FastHash K candidates) this))
    in (\<forall>r \<in> set rs. \<exists>c \<in> set candidates. r = toClosest c \<and> cMask c AND getLightMask this \<noteq> 0)
       \<and> sorted_wrt lightOrder rs
       \<and> sorted_wrt (\<lambda>a b. \<not> LightClosest_less b a) rs
       \<and> distinct (map globalIndex rs)
       \<and> (\<forall>c \<in> set candidates. cDirectional c \<and> toClosest c \<in> set rs
             \<longrightarrow> distance (toClosest c) = 0)
       \<and> length rs \<le> K
       \<and> (mParentNode this = None \<longrightarrow> rs = [])
       \<and> (\<forall>sn. mParentNode this = Some sn \<longrightarrow>
            (let scl = getDerivedScale sn;
                 radius = getBoundingRadius this * Max {vec_x scl, vec_y scl, vec_z scl};
                 near = filter (affects radius (getLightMask this)) candidates
             in rs = take K (dedupLights (sort_key (\<lambda>l. (distance l, globalIndex l))
                                            (map toClosest near)))
                \<and> length rs = min K (card (cGlobalIndex ` set near))
                \<and> (\<forall>c \<in> set near.
                      cGlobalIndex c \<in> globalIndex ` set rs
                      \<or> (length rs = K \<and> (\<forall>r \<in> set rs. lightOrder r (toClosest c)))))))"
proof (cases "mParentNode this")
  case None
  then show ?thesis by (simp add: queryLights_def clear_def)
next
  case (Some sn)
  let ?radius = "getBoundingRadius this
                   * Max {vec_x (getDerivedScale sn), vec_y (getDerivedScale sn),
                          vec_z (getDerivedScale sn)}"
  let ?rs = "nearestLights K candidates ?radius (getLightMask this)"
  let ?near = "filter (affects ?radius (getLightMask this)) candidates"
  have rs: "mList (fst (queryLights getDerivedScale (findLights_spec FastHash K candidates) this))
              = ?rs"
    using Some by (simp add: queryLights_def Let_def mList_findLights_spec std_max_is_Max)
  have 1: "\<forall>r \<in> set ?rs.
             \<exists>c \<in> set candidates. r = toClosest c \<and> cMask c AND getLightMask this \<noteq> 0"
    using nearestLights_subset [of _ K candidates ?radius "getLightMask this"]
    by (fastforce simp: affects_def)
  have 2: "sorted_wrt lightOrder ?rs"
    by (rule nearestLights_sorted)
  have 3: "sorted_wrt (\<lambda>a b. \<not> LightClosest_less b a) ?rs"
    using 2 by (simp add: lightOrder_less [abs_def])
  have 4: "distinct (map globalIndex ?rs)"
    by (rule nearestLights_distinct)
  have 5: "\<forall>c \<in> set candidates. cDirectional c \<and> toClosest c \<in> set ?rs
             \<longrightarrow> distance (toClosest c) = 0"
    by (simp add: toClosest_def effectiveDistance_def)
  have 6: "length ?rs = min K (card (cGlobalIndex ` set ?near))"
    by (rule nearestLights_length)
  have 7: "?rs = take K (dedupLights (sort_key (\<lambda>l. (distance l, globalIndex l))
                                        (map toClosest ?near)))"
    by (simp add: nearestLights_def)
  have 8: "\<forall>c \<in> set ?near.
             cGlobalIndex c \<in> globalIndex ` set ?rs
             \<or> (length ?rs = K \<and> (\<forall>r \<in> set ?rs. lightOrder r (toClosest c)))"
    using nearestLights_nearest [of _ candidates ?radius "getLightMask this" K] by auto
  have 9: "length ?rs \<le> K" using 6 by simp
  have 10: "mParentNode this = None \<longrightarrow> ?rs = []"
    using Some by simp
  have 11: "\<forall>sn. mParentNode this = Some sn \<longrightarrow>
              ?rs = take K (dedupLights (sort_key (\<lambda>l. (distance l, globalIndex l))
                      (map toClosest
                        (filter (affects (getBoundingRadius this
                                   * Max {vec_x (getDerivedScale sn), vec_y (getDerivedScale sn),
                                          vec_z (getDerivedScale sn)})
                                  (getLightMask this)) candidates))))
              \<and> length ?rs
                  = min K (card (cGlobalIndex `
                      set (filter (affects (getBoundingRadius this
                                   * Max {vec_x (getDerivedScale sn), vec_y (getDerivedScale sn),
                                          vec_z (getDerivedScale sn)})
                                  (getLightMask this)) candidates)))
              \<and> (\<forall>c \<in> set (filter (affects (getBoundingRadius this
                                   * Max {vec_x (getDerivedScale sn), vec_y (getDerivedScale sn),
                                          vec_z (getDerivedScale sn)})
                                  (getLightMask this)) candidates).
                     cGlobalIndex c \<in> globalIndex ` set ?rs
                     \<or> (length ?rs = K \<and> (\<forall>r \<in> set ?rs. lightOrder r (toClosest c))))"
  proof (intro allI impI)
    fix sn'
    assume "mParentNode this = Some sn'"
    with Some have e: "sn' = sn" by simp
    show "?rs = take K (dedupLights (sort_key (\<lambda>l. (distance l, globalIndex l))
                      (map toClosest
                        (filter (affects (getBoundingRadius this
                                   * Max {vec_x (getDerivedScale sn'), vec_y (getDerivedScale sn'),
                                          vec_z (getDerivedScale sn')})
                                  (getLightMask this)) candidates))))
              \<and> length ?rs
                  = min K (card (cGlobalIndex `
                      set (filter (affects (getBoundingRadius this
                                   * Max {vec_x (getDerivedScale sn'), vec_y (getDerivedScale sn'),
                                          vec_z (getDerivedScale sn')})
                                  (getLightMask this)) candidates)))
              \<and> (\<forall>c \<in> set (filter (affects (getBoundingRadius this
                                   * Max {vec_x (getDerivedScale sn'), vec_y (getDerivedScale sn'),
                                          vec_z (getDerivedScale sn')})
                                  (getLightMask this)) candidates).
                     cGlobalIndex c \<in> globalIndex ` set ?rs
                     \<or> (length ?rs = K \<and> (\<forall>r \<in> set ?rs. lightOrder r (toClosest c))))"
      unfolding e by (intro conjI) (rule 7, rule 6, rule 8)
  qed
  show ?thesis
    unfolding Let_def rs
    by (intro conjI) (rule 1, rule 2, rule 3, rule 4, rule 5, rule 9, rule 10, rule 11)
qed

theorem queryLights_nearest_sorted_witness:
  "mList (fst (queryLights sampleScale (findLights_spec sampleHash 2 [lightA, lightB, lightC])
                 sampleAttached))
     = [toClosest lightC, toClosest lightB]
   \<and> lightOrder (toClosest lightC) (toClosest lightB)
   \<and> lightOrder (toClosest lightB) (toClosest lightA)
   \<and> cGlobalIndex lightA \<notin> globalIndex ` set [toClosest lightC, toClosest lightB]
   \<and> affects 6 1 lightA
   \<and> mList (fst (queryLights sampleScale
                   (findLights_spec sampleHash 2 [lightC, lightC, lightB, lightD])
                   sampleAttached))
     = [toClosest lightD, toClosest lightC]
   \<and> distance (toClosest lightD) = 0"
proof -
  have q: "mList (fst (queryLights sampleScale (findLights_spec sampleHash 2 cs) sampleAttached))
             = nearestLights 2 cs 6 1" for cs
    by (simp add: queryLights_def mList_findLights_spec sampleAttached_def sampleObject_def
          sampleScale_def getBoundingRadius_def getLightMask_def std_max_def Let_def)
  have a: "affects 6 1 lightA" "affects 6 1 lightB" "affects 6 1 lightC" "affects 6 1 lightD"
    by (simp_all add: affects_def effectiveDistance_def lightA_def lightB_def lightC_def
          lightD_def)
  have t: "toClosest lightA = \<lparr>light = Some 100, globalIndex = 2, distance = 5\<rparr>"
    "toClosest lightB = \<lparr>light = Some 101, globalIndex = 1, distance = 5\<rparr>"
    "toClosest lightC = \<lparr>light = Some 102, globalIndex = 5, distance = 3\<rparr>"
    "toClosest lightD = \<lparr>light = Some 103, globalIndex = 7, distance = 0\<rparr>"
    by (simp_all add: toClosest_def effectiveDistance_def lightA_def lightB_def lightC_def
          lightD_def)
  have n1: "nearestLights 2 [lightA, lightB, lightC] 6 1 = [toClosest lightC, toClosest lightB]"
    by (simp add: nearestLights_def a t)
  have n2: "nearestLights 2 [lightC, lightC, lightB, lightD] 6 1
              = [toClosest lightD, toClosest lightC]"
    by (simp add: nearestLights_def a t)
  have o: "lightOrder (toClosest lightC) (toClosest lightB)"
    "lightOrder (toClosest lightB) (toClosest lightA)"
    "distance (toClosest lightD) = 0"
    by (simp_all add: t lightOrder_def)
  have i: "cGlobalIndex lightA \<notin> globalIndex ` set [toClosest lightC, toClosest lightB]"
    by (simp add: t) (simp add: lightA_def)
  have "length (mList (fst (queryLights sampleScale
                  (findLights_spec sampleHash 2 [lightA, lightB, lightC]) sampleAttached))) \<le> 2"
    using queryLights_nearest_sorted [of sampleScale sampleHash 2 "[lightA, lightB, lightC]"
        sampleAttached]
    unfolding Let_def by blast
  then show ?thesis
    unfolding q n1 n2 using a(1) o i by simp
qed

text \<open>
  C2.  For an object attached to a node and marked stale by a move (debug build):
  \<^verbatim>\<open>getWorldAabb\<close> fails its assertion; \<^verbatim>\<open>getWorldAabbUpdated\<close> returns the local box
  of the object's slot transformed by the freshly updated full transform of the owning
  node, stores it in the world box of that slot and of no other slot, and a
  \<^verbatim>\<open>getWorldAabb\<close> after it passes the assertion and returns the same box.
\<close>

theorem getWorldAabbUpdated_refreshes:
  "mParentNode this = Some node \<Longrightarrow>
     getWorldAabb (notifyMoved this) = Inl AssertionFailed
     \<and> (\<exists>this'.
          getWorldAabbUpdated getFullTransformUpdated transformAffine (notifyMoved this)
            = Inr (transformAffine (mLocalAabb (mObjectData this) (mIndex (mObjectData this)))
                     (getFullTransformUpdated node), this')
          \<and> mWorldAabb (mObjectData this') =
              (mWorldAabb (mObjectData this))
                (mIndex (mObjectData this) :=
                   transformAffine (mLocalAabb (mObjectData this) (mIndex (mObjectData this)))
                     (getFullTransformUpdated node))
          \<and> mLocalAabb (mObjectData this') = mLocalAabb (mObjectData this)
          \<and> mIndex (mObjectData this') = mIndex (mObjectData this)
          \<and> getWorldAabb this'
              = Inr (transformAffine (mLocalAabb (mObjectData this) (mIndex (mObjectData this)))
                       (getFullTransformUpdated node)))"
  by (simp add: getWorldAabb_def getWorldAabbUpdated_def updateSingleWorldAabb_def
        notifyMoved_def call_listener_def Let_def)

theorem getWorldAabbUpdated_refreshes_witness:
  "mParentNode sampleAttached = Some 2
   \<and> getWorldAabb (notifyMoved sampleAttached) = Inl AssertionFailed
   \<and> fst (projr (getWorldAabbUpdated (\<lambda>n. 10) translate (notifyMoved sampleAttached))) = (9, 11)
   \<and> getWorldAabb (snd (projr (getWorldAabbUpdated (\<lambda>n. 10) translate
                                  (notifyMoved sampleAttached)))) = Inr (9, 11)"
  using getWorldAabbUpdated_refreshes [of sampleAttached 2 "\<lambda>n. 10" translate]
  by (simp add: sampleAttached_def sampleObject_def sampleData_def translate_def
        getWorldAabb_def getWorldAabbUpdated_def updateSingleWorldAabb_def notifyMoved_def
        call_listener_def Let_def)

text \<open>
  C3.  Against the attach operation and the node's set of attached objects as the spec
  describes them, with \<^verbatim>\<open>detachFromParent\<close> and \<^verbatim>\<open>_notifyAttached\<close> from the
  source.  Detaching an unattached object returns the scene unchanged and raises nothing.
  On a consistent scene, attaching an unattached object and detaching it again gives the
  scene back, and so does detaching an attached object and attaching it to the same node
  again (up to the trace of listener calls).  Attaching an object that is attached to
  \<open>prev\<close> raises nothing: the object ends up attached to the new node, the scene is
  consistent, and the object is no longer in the set of \<open>prev\<close>.
\<close>

theorem attach_detach_mutually_inverse:
  "(mParentNode (obj s) = None \<longrightarrow> detachFromParent s = Inr s)
   \<and> (consistent s \<and> mParentNode (obj s) = None \<longrightarrow>
        (\<exists>s1 s2. attachTo node s = Inr s1 \<and> mParentNode (obj s1) = Some node
                  \<and> detachFromParent s1 = Inr s2
                  \<and> forgetCalls (listenerCalls (obj s)) s2 = s))
   \<and> (consistent s \<and> mParentNode (obj s) = Some prev \<longrightarrow>
        (\<exists>s0 s2. detachFromParent s = Inr s0 \<and> mParentNode (obj s0) = None
                  \<and> attachTo prev s0 = Inr s2
                  \<and> forgetCalls (listenerCalls (obj s)) s2 = s)
        \<and> (\<exists>s1. attachTo node s = Inr s1 \<and> mParentNode (obj s1) = Some node
                 \<and> consistent s1
                 \<and> (node = prev \<or> mId (obj s) \<notin> attachments s1 prev)))"
proof (intro conjI impI)
  assume "mParentNode (obj s) = None"
  then show "detachFromParent s = Inr s" by (rule detach_unattached)
next
  assume a: "consistent s \<and> mParentNode (obj s) = None"
  then obtain s1 s2 where *: "attachTo node s = Inr s1" "detachFromParent s1 = Inr s2"
      "forgetCalls (listenerCalls (obj s)) s2 = s"
    using attach_then_detach [of s node] by blast
  moreover have "mParentNode (obj s1) = Some node"
    using attach_unattached [of s node] a *(1) by auto
  ultimately show "\<exists>s1 s2. attachTo node s = Inr s1 \<and> mParentNode (obj s1) = Some node
                  \<and> detachFromParent s1 = Inr s2
                  \<and> forgetCalls (listenerCalls (obj s)) s2 = s"
    by blast
next
  assume a: "consistent s \<and> mParentNode (obj s) = Some prev"
  then obtain s0 s2 where *: "detachFromParent s = Inr s0" "attachTo prev s0 = Inr s2"
      "forgetCalls (listenerCalls (obj s)) s2 = s"
    using detach_then_attach [of s prev] by blast
  moreover have "mParentNode (obj s0) = None"
    using detach_attached [of s prev] a *(1) by auto
  ultimately show "\<exists>s0 s2. detachFromParent s = Inr s0 \<and> mParentNode (obj s0) = None
                  \<and> attachTo prev s0 = Inr s2
                  \<and> forgetCalls (listenerCalls (obj s)) s2 = s"
    by blast
next
  assume a: "consistent s \<and> mParentNode (obj s) = Some prev"
  then show "\<exists>s1. attachTo node s = Inr s1 \<and> mParentNode (obj s1) = Some node
                 \<and> consistent s1
                 \<and> (node = prev \<or> mId (obj s) \<notin> attachments s1 prev)"
    using reattach [of s prev node] by blast
qed

theorem attach_detach_mutually_inverse_witness:
  "consistent sampleScene \<and> mParentNode (obj sampleScene) = None
   \<and> detachFromParent sampleScene = Inr sampleScene
   \<and> (\<exists>s1 s2. attachTo 3 sampleScene = Inr s1 \<and> mParentNode (obj s1) = Some 3
         \<and> detachFromParent s1 = Inr s2
         \<and> forgetCalls (listenerCalls (obj sampleScene)) s2 = sampleScene)
   \<and> consistent sampleSceneAttached \<and> mParentNode (obj sampleSceneAttached) = Some 2
   \<and> (\<exists>s1. attachTo 3 sampleSceneAttached = Inr s1 \<and> mParentNode (obj s1) = Some 3
         \<and> consistent s1 \<and> 7 \<notin> attachments s1 2)"
proof -
  have c1: "consistent sampleScene \<and> mParentNode (obj sampleScene) = None"
    by (simp add: consistent_def sampleScene_def sampleObject_def sampleData_def)
  have c2: "consistent sampleSceneAttached \<and> mParentNode (obj sampleSceneAttached) = Some 2"
    by (simp add: consistent_def sampleSceneAttached_def sampleAttached_def sampleObject_def
          sampleData_def)
  have i: "mId (obj sampleSceneAttached) = 7"
    by (simp add: sampleSceneAttached_def sampleAttached_def sampleObject_def)
  show ?thesis
    using c1 c2 i attach_detach_mutually_inverse [where s = sampleScene and node = 3]
      attach_detach_mutually_inverse [where s = sampleSceneAttached and node = 3 and prev = 2]
    by auto
qed

text \<open>
  C4.  For an unattached object \<^verbatim>\<open>queryLights\<close> clears the cached light list and
  returns it, empty; the method has no failing path.
\<close>

theorem queryLights_unattached:
  "mParentNode this = None \<Longrightarrow>
     queryLights getDerivedScale findLights this =
       (clear (mLightList this), this\<lparr>mLightList := clear (mLightList this)\<rparr>)
     \<and> mList (fst (queryLights getDerivedScale findLights this)) = []
     \<and> mList (mLightList (snd (queryLights getDerivedScale findLights this))) = []"
  by (simp add: queryLights_def clear_def)

theorem queryLights_unattached_witness:
  "mParentNode sampleObject = None
   \<and> mList (mLightList sampleObject) \<noteq> []
   \<and> mList (fst (queryLights sampleScale (findLights_spec sampleHash 2 [lightA]) sampleObject)) = []
   \<and> mList (mLightList (snd (queryLights sampleScale (findLights_spec sampleHash 2 [lightA])
                               sampleObject))) = []"
proof -
  have h: "mParentNode sampleObject = None"
    by (simp add: sampleObject_def)
  have l: "mList (mLightList sampleObject) \<noteq> []"
    by (simp add: sampleObject_def HashedVector_n_def)
  show ?thesis
    using h l queryLights_unattached [OF h, of sampleScale "findLights_spec sampleHash 2 [lightA]"]
    by (simp add: clear_def)
qed

text \<open>
  C5.  For an object attached to node \<open>sn\<close>, \<^verbatim>\<open>queryLights\<close> calls \<^verbatim>\<open>findLights\<close> on
  \<open>sn\<close> with the radius \<^verbatim>\<open>getBoundingRadius()\<close> times the largest of the three
  components of the derived scale of \<open>sn\<close> and with the light mask of the object, and
  caches and returns what the call leaves in the list.
\<close>

theorem queryLights_attached:
  "mParentNode this = Some sn \<Longrightarrow>
     queryLights getDerivedScale findLights this =
       (let scl = getDerivedScale sn;
            radius = getBoundingRadius this * Max {vec_x scl, vec_y scl, vec_z scl};
            lights = findLights sn (mLightList this) radius (getLightMask this)
        in (lights, this\<lparr>mLightList := lights\<rparr>))"
  by (simp add: queryLights_def Let_def std_max_is_Max)

theorem queryLights_attached_witness:
  "mParentNode sampleAttached = Some 2
   \<and> getBoundingRadius sampleAttached * Max {vec_x (sampleScale 2), vec_y (sampleScale 2),
                                              vec_z (sampleScale 2)} = 6
   \<and> fst (queryLights sampleScale (\<lambda>sn destList radius lightMask.
             HashedVector_n 1 \<lparr>light = None, globalIndex = sn, distance = radius\<rparr>) sampleAttached)
       = HashedVector_n 1 \<lparr>light = None, globalIndex = 2, distance = 6\<rparr>"
  using queryLights_attached [of sampleAttached 2 sampleScale
      "\<lambda>sn destList radius lightMask.
         HashedVector_n 1 \<lparr>light = None, globalIndex = sn, distance = radius\<rparr>"]
  by (simp add: sampleAttached_def sampleObject_def sampleScale_def getBoundingRadius_def
        Let_def)

text \<open>
  C6.  \<^verbatim>\<open>isVisible\<close> is false when the visibility flag of the object is false;
  otherwise, with an active scene manager, it is true exactly when the visibility flags of
  the object and the combined visibility mask of the scene have a bit in common; with no
  active scene manager it is true.
\<close>

theorem isVisible_cases:
  "isVisible (Some sm) this =
     (mVisible this \<and> (\<exists>n. bit (getVisibilityFlags this) n \<and> bit (combinedVisibilityMask sm) n))
   \<and> isVisible (Some sm) this =
       (mVisible this \<and> getVisibilityFlags this AND combinedVisibilityMask sm \<noteq> 0)
   \<and> isVisible None this = mVisible this"
  by (simp add: isVisible_def and_nonzero_iff_common_bit [symmetric])




text \<open>
  C8.  \<^verbatim>\<open>setRenderQueueGroup\<close> with a queue id above \<open>RENDER_QUEUE_MAX\<close> fails its
  assertion (debug build); with a queue id up to \<open>RENDER_QUEUE_MAX\<close> it stores the id and
  changes nothing else, and \<^verbatim>\<open>getRenderQueueGroup\<close> then returns the id.
\<close>

theorem setRenderQueueGroup_range:
  "(queueID \<le> RENDER_QUEUE_MAX \<longrightarrow>
      (\<exists>this'. setRenderQueueGroup RENDER_QUEUE_MAX queueID this = Inr this'
               \<and> this' = this\<lparr>mRenderQueueID := queueID\<rparr>
               \<and> getRenderQueueGroup this' = queueID))
   \<and> (RENDER_QUEUE_MAX < queueID \<longrightarrow>
        setRenderQueueGroup RENDER_QUEUE_MAX queueID this = Inl AssertionFailed)"
  by (auto simp: setRenderQueueGroup_def getRenderQueueGroup_def)

theorem setRenderQueueGroup_range_witness:
  "(60 :: uint8) \<le> 105
   \<and> (\<exists>this'. setRenderQueueGroup 105 60 sampleObject = Inr this'
         \<and> this' = sampleObject\<lparr>mRenderQueueID := 60\<rparr>
         \<and> getRenderQueueGroup this' = 60)
   \<and> (105 :: uint8) < 200
   \<and> setRenderQueueGroup 105 200 sampleObject = Inl AssertionFailed"
proof -
  have a: "(60 :: uint8) \<le> 105" by simp
  have b: "(105 :: uint8) < 200" by simp
  show ?thesis
    using a b setRenderQueueGroup_range [of 60 105 sampleObject]
      setRenderQueueGroup_range [of 200 105 sampleObject]
    by blast
qed

text \<open>
  C9.  \<^verbatim>\<open>operator==\<close> is the comparison of the two stored hashes: the elements and the
  dirty flags play no part, and nothing is recomputed.  So the one-element list made by
  \<^verbatim>\<open>HashedVector(1, t)\<close>, whose hash 0 is stale, and the list with the same element
  made by \<^verbatim>\<open>push_back\<close> compare equal only if the hash of \<open>t\<close> from seed 0 is itself 0;
  and two lists of different elements whose stored hashes are both 0 compare equal.
\<close>

theorem operator_eq_stored_hash_only:
  "operator_eq a b = (mListHash a = mListHash b)
   \<and> operator_eq (a\<lparr>mList := xs, mListHashDirty := d\<rparr>) (b\<lparr>mList := ys, mListHashDirty := e\<rparr>)
       = operator_eq a b
   \<and> mList (HashedVector_n 1 t) = mList (push_back FastHash t HashedVector_empty)
   \<and> isHashDirty (HashedVector_n 1 t)
   \<and> operator_eq (HashedVector_n 1 t) (push_back FastHash t HashedVector_empty)
       = (FastHash t 0 = 0)
   \<and> mList (HashedVector_n 1 t) \<noteq> mList (HashedVector_n 2 u)
   \<and> operator_eq (HashedVector_n 1 t) (HashedVector_n 2 u)"
  by (simp add: operator_eq_def HashedVector_n_def HashedVector_empty_def push_back_def
        isHashDirty_def addToHash_def Let_def numeral_2_eq_2)

text \<open>
  C10.  Whatever the storage held before and whether or not a root exists, a constructed
  object has a null parent node, is visible, has render queue \<open>RENDER_QUEUE_MAIN\<close> and
  priority 100, casts shadows, has the largest float as upper distance and a null
  listener; the two class-wide default masks have all 32 bits set.
\<close>

theorem ctor_initial_state:
  "(let this = MovableObject_ctor RENDER_QUEUE_MAIN rootSingleton ident raw in
      mParentNode this = None
    \<and> mVisible this
    \<and> mRenderQueueID this = RENDER_QUEUE_MAIN
    \<and> mRenderQueuePriority this = 100
    \<and> mCastShadows this
    \<and> mUpperDistance this = numeric_limits_float_max
    \<and> mListener this = None)
   \<and> msDefaultQueryFlags = 0xFFFFFFFF
   \<and> msDefaultVisibilityFlags = 0xFFFFFFFF
   \<and> msDefaultQueryFlags = NOT 0
   \<and> msDefaultVisibilityFlags = NOT 0"
  by (simp add: MovableObject_ctor_def Let_def msDefaultQueryFlags_def
        msDefaultVisibilityFlags_def split: option.split)

end
